theory Spec2Isabelle
  imports Complex_Main
begin

section \<open>Values exchanged with the libraries\<close>

text \<open>
  The dashboard of \<^verbatim>\<open>app.py\<close> is one cached HTTP GET (\<^verbatim>\<open>fetch_wb_data\<close>), a reshape of
  the decoded JSON into a table, and a chart call with an optional trend overlay.
  A decoded JSON document is a Python value: \<open>JNull\<close> is Python's \<^verbatim>\<open>None\<close>, an object is
  the dict the decoder built, kept as the list of its items.  A number is a double in the
  program: \<open>JNum r\<close> is a number the decoder produced, \<open>r\<close> the value of that double (a
  number that a later conversion to a double would round is outside these definitions).
  Double arithmetic itself is not defined here: the least-squares fit and the numeric
  parser of the libraries are parameters, and no theorem states the result of an
  arithmetic operation of the program.
\<close>

datatype json =
    JNull
  | JBool bool
  | JNum real
  | JStr string
  | JArr "json list"
  | JObj "(string \<times> json) list"

text \<open>The exceptions the pipeline can meet; the top-level \<^verbatim>\<open>except Exception\<close> catches all.\<close>

datatype py_error =
    ConnectionError
  | JSONDecodeError
  | TypeError
  | ValueError
  | KeyError string
  | IndexError
  | LinAlgError

text \<open>\<^verbatim>\<open>len(data)\<close>: defined on strings, lists and dicts, a \<^verbatim>\<open>TypeError\<close> elsewhere.\<close>

fun py_len :: "json \<Rightarrow> py_error + nat" where
  "py_len (JArr xs) = Inr (length xs)"
| "py_len (JStr s) = Inr (length s)"
| "py_len (JObj kvs) = Inr (length kvs)"
| "py_len _ = Inl TypeError"

text \<open>
  \<^verbatim>\<open>data[1]\<close>: the second element of a list, the second character of a string; on a
  dict the integer \<open>1\<close> is looked up as a key, and the keys of a decoded object are strings.
\<close>

fun py_getitem1 :: "json \<Rightarrow> py_error + json" where
  "py_getitem1 (JArr xs) = (if 1 < length xs then Inr (xs ! 1) else Inl IndexError)"
| "py_getitem1 (JStr s) = (if 1 < length s then Inr (JStr [s ! 1]) else Inl IndexError)"
| "py_getitem1 (JObj kvs) = Inl (KeyError ''1'')"
| "py_getitem1 _ = Inl TypeError"

text \<open>Truth value of a Python object, as \<^verbatim>\<open>if data:\<close> tests it.\<close>

fun truthy :: "json \<Rightarrow> bool" where
  "truthy JNull = False"
| "truthy (JBool b) = b"
| "truthy (JNum r) = (r \<noteq> 0)"
| "truthy (JStr s) = (s \<noteq> [])"
| "truthy (JArr xs) = (xs \<noteq> [])"
| "truthy (JObj kvs) = (kvs \<noteq> [])"

subsection \<open>Formatting\<close>

fun str_nat :: "nat \<Rightarrow> string" where
  "str_nat n =
     (if n < 10 then [''0123456789'' ! n]
      else str_nat (n div 10) @ [''0123456789'' ! (n mod 10)])"

declare str_nat.simps [simp del]

definition str_int :: "int \<Rightarrow> string" where
  "str_int i = (if i < 0 then ''-'' @ str_nat (nat (- i)) else str_nat (nat i))"

text \<open>What an f-string prints for an optional year: the default argument is \<^verbatim>\<open>None\<close>.\<close>

definition str_date :: "int option \<Rightarrow> string" where
  "str_date d = (case d of None \<Rightarrow> ''None'' | Some i \<Rightarrow> str_int i)"

fun py_join :: "string \<Rightarrow> string list \<Rightarrow> string" where
  "py_join sep [] = []"
| "py_join sep [s] = s"
| "py_join sep (s # t # ts) = s @ sep @ py_join sep (t # ts)"

section \<open>The fetch\<close>

record request =
  url :: string
  params :: "(string \<times> string) list"

text \<open>
  A response carries its status and its body; \<open>body = None\<close> is a body that is not JSON,
  on which \<^verbatim>\<open>response.json()\<close> raises.
\<close>

record response =
  status_code :: int
  body :: "json option"

text \<open>
  The network is outside the program: \<open>net n req\<close> is what the \<open>n\<close>-th request of the
  process meets, a transport failure or a response.  The list of requests sent so far is
  the only state \<^verbatim>\<open>requests.get\<close> touches.
\<close>

type_synonym network = "nat \<Rightarrow> request \<Rightarrow> py_error + response"

definition requests_get ::
  "network \<Rightarrow> request \<Rightarrow> request list \<Rightarrow> (py_error + response) \<times> request list" where
  "requests_get net req wire = (net (length wire) req, wire @ [req])"

definition response_json :: "response \<Rightarrow> py_error + json" where
  "response_json r = (case body r of None \<Rightarrow> Inl JSONDecodeError | Some d \<Rightarrow> Inr d)"

definition BASE_URL :: string where
  "BASE_URL = ''https://api.worldbank.org/v2''"

text \<open>The \<^verbatim>\<open>country\<close> argument is a code or a list of codes (\<^verbatim>\<open>isinstance(country, list)\<close>).\<close>

datatype country_arg = Code string | Codes "string list"

text \<open>Lines 22 to 31: the URL and the query parameters.\<close>

definition fetch_request :: "string \<Rightarrow> country_arg \<Rightarrow> int option \<Rightarrow> int option \<Rightarrow> request" where
  "fetch_request indicator country start_date end_date =
     (let country' = (case country of Codes cs \<Rightarrow> py_join '';'' cs | Code c \<Rightarrow> c)
      in \<lparr>url = BASE_URL @ ''/country/'' @ country' @ ''/indicator/'' @ indicator,
          params = [(''format'', ''json''), (''per_page'', ''1000''),
                    (''date'', str_date start_date @ '':'' @ str_date end_date)]\<rparr>)"

text \<open>Lines 33 to 38: the call and the three ways out.\<close>

definition fetch_wb_data ::
  "network \<Rightarrow> string \<Rightarrow> country_arg \<Rightarrow> int option \<Rightarrow> int option \<Rightarrow> request list
     \<Rightarrow> (py_error + json) \<times> request list" where
  "fetch_wb_data net indicator country start_date end_date wire =
     (case requests_get net (fetch_request indicator country start_date end_date) wire of
        (Inl e, wire') \<Rightarrow> (Inl e, wire')
      | (Inr resp, wire') \<Rightarrow>
          if status_code resp = 200 then
            (case response_json resp of
               Inl e \<Rightarrow> (Inl e, wire')
             | Inr data \<Rightarrow>
                 (case py_len data of
                    Inl e \<Rightarrow> (Inl e, wire')
                  | Inr n \<Rightarrow> if n > 1 then (py_getitem1 data, wire') else (Inr JNull, wire')))
          else (Inr JNull, wire'))"

subsection \<open>The cache of \<^verbatim>\<open>st.cache_data\<close>\<close>

text \<open>
  The decorator is used with its defaults: no \<^verbatim>\<open>ttl\<close>, no \<^verbatim>\<open>max_entries\<close>, and the program
  never clears it.  It stores the value a call returns under the call's arguments; a call
  that raises stores nothing.
\<close>

type_synonym fetch_key = "string \<times> country_arg \<times> int option \<times> int option"

record app_state =
  cache :: "fetch_key \<rightharpoonup> json"
  sent :: "request list"

definition fetch_wb_data_cached ::
  "network \<Rightarrow> string \<Rightarrow> country_arg \<Rightarrow> int option \<Rightarrow> int option \<Rightarrow> app_state
     \<Rightarrow> (py_error + json) \<times> app_state" where
  "fetch_wb_data_cached net indicator country start_date end_date st =
     (case cache st (indicator, country, start_date, end_date) of
        Some v \<Rightarrow> (Inr v, st)
      | None \<Rightarrow>
          (case fetch_wb_data net indicator country start_date end_date (sent st) of
             (Inl e, wire') \<Rightarrow> (Inl e, st\<lparr>sent := wire'\<rparr>)
           | (Inr v, wire') \<Rightarrow>
               (Inr v, st\<lparr>sent := wire',
                          cache := (cache st)((indicator, country, start_date, end_date) \<mapsto> v)\<rparr>)))"

text \<open>
  The life of the process, as far as the cache sees it: a sequence of fetch calls, each
  with its own arguments.
\<close>

fun fetch_all :: "network \<Rightarrow> fetch_key list \<Rightarrow> app_state \<Rightarrow> app_state" where
  "fetch_all net [] st = st"
| "fetch_all net ((i, c, s, e) # ks) st =
     fetch_all net ks (snd (fetch_wb_data_cached net i c s e st))"

section \<open>The catalogs\<close>

definition wb_indicators :: "(string \<times> string) list" where
  "wb_indicators =
     [(''NY.GDP.MKTP.CD'', ''GDP (current US$)''),
      (''NY.GDP.PCAP.CD'', ''GDP per capita (current US$)''),
      (''FP.CPI.TOTL.ZG'', ''Inflation, consumer prices (annual %)''),
      (''NE.TRD.GNFS.ZS'', ''Trade (% of GDP)''),
      (''BN.CAB.XOKA.GD.ZS'', ''Current Account Balance (% of GDP)''),
      (''FI.RES.TOTL.CD'', ''Total reserves''),
      (''SL.UEM.TOTL.ZS'', ''Unemployment rate''),
      (''NY.GDP.MKTP.KD.ZG'', ''GDP growth (annual %)''),
      (''BX.KLT.DINV.WD.GD.ZS'', ''Foreign direct investment (% of GDP)''),
      (''GC.DOD.TOTL.GD.ZS'', ''Government debt to GDP (%)'')]"

definition countries :: "(string \<times> string) list" where
  "countries =
     [(''USA'', ''United States''), (''CHN'', ''China''), (''JPN'', ''Japan''),
      (''DEU'', ''Germany''), (''GBR'', ''United Kingdom''), (''FRA'', ''France''),
      (''IND'', ''India''), (''BRA'', ''Brazil''), (''CAN'', ''Canada''),
      (''AUS'', ''Australia''), (''KOR'', ''South Korea''), (''RUS'', ''Russia''),
      (''ZAF'', ''South Africa''), (''MEX'', ''Mexico'')]"

definition dict_get :: "(string \<times> 'a) list \<Rightarrow> string \<Rightarrow> py_error + 'a" where
  "dict_get d k = (case map_of d k of None \<Rightarrow> Inl (KeyError k) | Some v \<Rightarrow> Inr v)"

section \<open>The table\<close>

text \<open>
  \<^verbatim>\<open>pd.DataFrame(data)\<close> on a list of dicts makes one row per dict, in the order of the
  list, and one column per key that occurs in some dict; a dict without the key gets a
  missing cell there.  A missing cell and a JSON \<open>null\<close> are both \<open>JNull\<close> here: every
  operation of the pipeline treats them alike.  The constructor is modelled on the payload
  the endpoint documents, a list of objects; any other value is taken to the exception path.
\<close>

type_synonym raw_record = "(string \<times> json) list"

fun obj_items :: "json \<Rightarrow> raw_record option" where
  "obj_items (JObj kvs) = Some kvs"
| "obj_items _ = None"

definition DataFrame :: "json \<Rightarrow> py_error + raw_record list" where
  "DataFrame data =
     (case data of
        JArr xs \<Rightarrow>
          if list_all (\<lambda>x. obj_items x \<noteq> None) xs then Inr (map (\<lambda>x. the (obj_items x)) xs)
          else Inl TypeError
      | _ \<Rightarrow> Inl ValueError)"

definition has_column :: "raw_record list \<Rightarrow> string \<Rightarrow> bool" where
  "has_column recs k = list_ex (\<lambda>r. k \<in> set (map fst r)) recs"

definition cell :: "raw_record \<Rightarrow> string \<Rightarrow> json" where
  "cell r k = (case map_of r k of None \<Rightarrow> JNull | Some v \<Rightarrow> v)"

definition column :: "raw_record list \<Rightarrow> string \<Rightarrow> json list" where
  "column recs k = map (\<lambda>r. cell r k) recs"

text \<open>\<^verbatim>\<open>df[k]\<close> raises \<^verbatim>\<open>KeyError\<close> when no record has the key.\<close>

definition getitem_column :: "raw_record list \<Rightarrow> string \<Rightarrow> py_error + json list" where
  "getitem_column recs k = (if has_column recs k then Inr (column recs k) else Inl (KeyError k))"

subsection \<open>\<^verbatim>\<open>pd.to_numeric\<close>\<close>

text \<open>
  The conversion of one cell.  A missing cell stays missing, a number stays, a boolean is
  the number 1 or 0.  The empty string counts as missing in both modes.  Any other string
  goes through the library's numeric parser, taken here as the parameter \<open>parse\<close>: it
  gives a number, or the float \<^verbatim>\<open>nan\<close> (as for the text \<^verbatim>\<open>nan\<close>), or it rejects the
  string.  What cannot be converted raises under \<^verbatim>\<open>errors='raise'\<close>, the default, and
  becomes missing under \<^verbatim>\<open>errors='coerce'\<close>.  A missing number (NaN) is \<open>None\<close>.
\<close>

datatype errors_mode = Raise | Coerce

datatype parsed = Number real | NotANumber | Rejected

type_synonym parser = "string \<Rightarrow> parsed"

fun to_numeric_cell :: "parser \<Rightarrow> errors_mode \<Rightarrow> json \<Rightarrow> py_error + real option" where
  "to_numeric_cell parse m JNull = Inr None"
| "to_numeric_cell parse m (JNum r) = Inr (Some r)"
| "to_numeric_cell parse m (JBool b) = Inr (Some (if b then 1 else 0))"
| "to_numeric_cell parse m (JStr s) =
     (if s = [] then Inr None
      else
        (case parse s of
           Number r \<Rightarrow> Inr (Some r)
         | NotANumber \<Rightarrow> Inr None
         | Rejected \<Rightarrow> (case m of Raise \<Rightarrow> Inl ValueError | Coerce \<Rightarrow> Inr None)))"
| "to_numeric_cell parse m (JArr xs) = (case m of Raise \<Rightarrow> Inl TypeError | Coerce \<Rightarrow> Inr None)"
| "to_numeric_cell parse m (JObj kvs) = (case m of Raise \<Rightarrow> Inl TypeError | Coerce \<Rightarrow> Inr None)"

fun to_numeric :: "parser \<Rightarrow> errors_mode \<Rightarrow> json list \<Rightarrow> py_error + real option list" where
  "to_numeric parse m [] = Inr []"
| "to_numeric parse m (c # cs) =
     (case to_numeric_cell parse m c of
        Inl e \<Rightarrow> Inl e
      | Inr v \<Rightarrow> (case to_numeric parse m cs of Inl e \<Rightarrow> Inl e | Inr vs \<Rightarrow> Inr (v # vs)))"

text \<open>
  A parser for the examples: unsigned decimal numerals, which is how the endpoint writes a
  year.  The library's parser accepts more; the theorems hold for every parser.
\<close>

definition digit_val :: "char \<Rightarrow> nat option" where
  "digit_val c = map_of (zip ''0123456789'' [0, 1, 2, 3, 4, 5, 6, 7, 8, 9]) c"

definition parse_decimal :: parser where
  "parse_decimal s =
     (if s \<noteq> [] \<and> list_all (\<lambda>c. digit_val c \<noteq> None) s
      then Number (real (foldl (\<lambda>a c. 10 * a + the (digit_val c)) 0 s))
      else Rejected)"

subsection \<open>Normalization\<close>

text \<open>The three columns the pipeline reads, after the two conversions.\<close>

record row =
  countryiso3code :: json
  date :: "real option"
  val :: "real option"

text \<open>
  Lines 121 and 122: \<^verbatim>\<open>df['date'] = pd.to_numeric(df['date'])\<close>, then
  \<^verbatim>\<open>df['value'] = pd.to_numeric(df['value'], errors='coerce')\<close>.
\<close>

definition normalize :: "parser \<Rightarrow> raw_record list \<Rightarrow> py_error + row list" where
  "normalize parse recs =
     (case getitem_column recs ''date'' of
        Inl e \<Rightarrow> Inl e
      | Inr ds \<Rightarrow>
          (case to_numeric parse Raise ds of
             Inl e \<Rightarrow> Inl e
           | Inr dates \<Rightarrow>
               (case getitem_column recs ''value'' of
                  Inl e \<Rightarrow> Inl e
                | Inr vs \<Rightarrow>
                    (case to_numeric parse Coerce vs of
                       Inl e \<Rightarrow> Inl e
                     | Inr vals \<Rightarrow>
                         Inr (map (\<lambda>(r, d, v). \<lparr>countryiso3code = cell r ''countryiso3code'',
                                                 date = d, val = v\<rparr>)
                                (zip recs (zip dates vals)))))))"

subsection \<open>The specification's reading of a raw field\<close>



subsection \<open>Well-formed payloads\<close>



section \<open>The chart\<close>

text \<open>
  A trace of the figure: its legend name, its points, and the two style hints the program
  sets.  The name of a raw trace is the country cell it groups (the library prints it), the
  name of a trend trace is a string.
\<close>

record trace =
  trace_name :: json
  trace_x :: "real option list"
  trace_y :: "real option list"
  dash :: bool
  opacity :: real

record figure =
  title :: string
  y_label :: string
  traces :: "trace list"
  fig_height :: "nat option"

text \<open>The distinct elements of a list, in the order of their first occurrence.\<close>

definition unique :: "'a list \<Rightarrow> 'a list" where
  "unique xs = rev (remdups (rev xs))"

text \<open>
  \<^verbatim>\<open>px.line(df, x='date', y='value', color='countryiso3code', ...)\<close> makes solid traces,
  one per group of the color column.  When the column holds a single distinct value, be it
  the missing marker, the whole table is one group and one trace, named by that value.
  Otherwise there is one trace per distinct value that is not missing, in the order of
  first appearance, holding the rows with that value in table order, and a row whose color
  cell is missing belongs to no trace.
\<close>

definition raw_trace :: "row list \<Rightarrow> json \<Rightarrow> trace" where
  "raw_trace df k =
     \<lparr>trace_name = k,
      trace_x = map date (filter (\<lambda>r. countryiso3code r = k) df),
      trace_y = map val (filter (\<lambda>r. countryiso3code r = k) df),
      dash = False, opacity = 1\<rparr>"

definition color_groups :: "row list \<Rightarrow> json list" where
  "color_groups df =
     (if length (unique (map countryiso3code df)) = 1 then unique (map countryiso3code df)
      else unique (filter (\<lambda>k. k \<noteq> JNull) (map countryiso3code df)))"

definition px_line :: "row list \<Rightarrow> string \<Rightarrow> string \<Rightarrow> figure" where
  "px_line df ylab ttl =
     \<lparr>title = ttl, y_label = ylab,
      traces = map (raw_trace df) (color_groups df),
      fig_height = None\<rparr>"

subsection \<open>The trend overlay\<close>

text \<open>
  \<^verbatim>\<open>np.polyfit(x, y, 1)\<close> is a parameter of the overlay: a function from the years and the
  values of one country to the coefficients (slope, intercept), or to the exception it
  raises.  \<^verbatim>\<open>np.poly1d(z)\<close> evaluates the line; at a missing year the result is missing.
  The program evaluates in doubles and \<open>poly1d\<close> exactly; no theorem states a value of it.
\<close>

type_synonym fitter = "real option list \<Rightarrow> real list \<Rightarrow> py_error + real \<times> real"

definition fillna :: "real \<Rightarrow> real option \<Rightarrow> real" where
  "fillna d v = (case v of None \<Rightarrow> d | Some r \<Rightarrow> r)"

definition poly1d :: "real \<times> real \<Rightarrow> real option \<Rightarrow> real option" where
  "poly1d z t = map_option (\<lambda>r. fst z * r + snd z) t"

text \<open>Line 136: \<^verbatim>\<open>country_data = df[df['countryiso3code'] == country]\<close>.\<close>

definition country_data :: "row list \<Rightarrow> string \<Rightarrow> row list" where
  "country_data df country = filter (\<lambda>r. countryiso3code r = JStr country) df"

text \<open>Line 138: the fit of one country, on its years and its values with missing as 0.\<close>

definition country_fit :: "fitter \<Rightarrow> row list \<Rightarrow> string \<Rightarrow> py_error + real \<times> real" where
  "country_fit fit df country =
     fit (map date (country_data df country)) (map (\<lambda>r. fillna 0 (val r)) (country_data df country))"

text \<open>
  The body of the loop, lines 136 to 148, for one selected country: \<open>Inr None\<close> when the
  country has no row (no trace is added), the dashed trace otherwise.
\<close>

definition trend_trace :: "fitter \<Rightarrow> row list \<Rightarrow> string \<Rightarrow> py_error + trace option" where
  "trend_trace fit df country =
     (if country_data df country \<noteq> [] then
        (case country_fit fit df country of
           Inl e \<Rightarrow> Inl e
         | Inr z \<Rightarrow>
             (case dict_get countries country of
                Inl e \<Rightarrow> Inl e
              | Inr label \<Rightarrow>
                  Inr (Some \<lparr>trace_name = JStr (label @ '' trend''),
                             trace_x = map date (country_data df country),
                             trace_y = map (poly1d z) (map date (country_data df country)),
                             dash = True, opacity = 1 / 2\<rparr>)))
      else Inr None)"

text \<open>The loop over the selection, adding to the traces of the figure.\<close>

fun add_trends :: "fitter \<Rightarrow> row list \<Rightarrow> string list \<Rightarrow> trace list \<Rightarrow> py_error + trace list" where
  "add_trends fit df [] ts = Inr ts"
| "add_trends fit df (country # rest) ts =
     (case trend_trace fit df country of
        Inl e \<Rightarrow> Inl e
      | Inr None \<Rightarrow> add_trends fit df rest ts
      | Inr (Some t) \<Rightarrow> add_trends fit df rest (ts @ [t]))"

text \<open>Lines 125 to 155: the figure from the table.\<close>

definition assemble ::
  "fitter \<Rightarrow> row list \<Rightarrow> string list \<Rightarrow> string \<Rightarrow> bool \<Rightarrow> py_error + figure" where
  "assemble fit df selected_countries label show_trend =
     (let fig = px_line df label (label @ '' Over Time'')
      in if show_trend then
           (case add_trends fit df selected_countries (traces fig) of
              Inl e \<Rightarrow> Inl e
            | Inr ts \<Rightarrow> Inr (fig\<lparr>traces := ts, fig_height := Some 700\<rparr>))
         else Inr (fig\<lparr>fig_height := Some 700\<rparr>))"

section \<open>The page\<close>

text \<open>
  What one run of the script shows in the main area: the warning, nothing, the chart, or
  the message of the exception handler.
\<close>

datatype outcome = Warning string | Nothing | Chart figure | Error py_error

text \<open>
  Lines 119 to 157, entered when the fetched data is truthy.  The label of the indicator is
  looked up while the arguments of \<^verbatim>\<open>px.line\<close> are built; \<^verbatim>\<open>px.line\<close> rejects a table
  without the color column.
\<close>

definition build_chart ::
  "parser \<Rightarrow> fitter \<Rightarrow> string list \<Rightarrow> string \<Rightarrow> bool \<Rightarrow> json \<Rightarrow> py_error + figure" where
  "build_chart parse fit selected_countries selected_indicator show_trend data =
     (case DataFrame data of
        Inl e \<Rightarrow> Inl e
      | Inr recs \<Rightarrow>
          (case normalize parse recs of
             Inl e \<Rightarrow> Inl e
           | Inr df \<Rightarrow>
               (case dict_get wb_indicators selected_indicator of
                  Inl e \<Rightarrow> Inl e
                | Inr label \<Rightarrow>
                    if has_column recs ''countryiso3code''
                    then assemble fit df selected_countries label show_trend
                    else Inl ValueError)))"

text \<open>Lines 106 to 160.\<close>

definition main ::
  "parser \<Rightarrow> fitter \<Rightarrow> network \<Rightarrow> string list \<Rightarrow> string \<Rightarrow> bool \<Rightarrow> int \<Rightarrow> int \<Rightarrow> app_state
     \<Rightarrow> outcome \<times> app_state" where
  "main parse fit net selected_countries selected_indicator show_trend start_date end_date st =
     (if selected_countries = [] then (Warning ''Please select at least one country.'', st)
      else
        (case fetch_wb_data_cached net selected_indicator (Codes selected_countries)
                (Some start_date) (Some end_date) st of
           (Inl e, st') \<Rightarrow> (Error e, st')
         | (Inr data, st') \<Rightarrow>
             if truthy data then
               (case build_chart parse fit selected_countries selected_indicator show_trend data of
                  Inl e \<Rightarrow> (Error e, st')
                | Inr fig \<Rightarrow> (Chart fig, st'))
             else (Nothing, st')))"

section \<open>Inputs for the examples\<close>

definition st0 :: app_state where
  "st0 = \<lparr>cache = Map.empty, sent = []\<rparr>"

text \<open>A network that answers every request alike, and one that is down.\<close>

definition net_of :: "int \<Rightarrow> json option \<Rightarrow> network" where
  "net_of code b = (\<lambda>n req. Inr \<lparr>status_code = code, body = b\<rparr>)"

definition net_down :: network where
  "net_down = (\<lambda>n req. Inl ConnectionError)"

text \<open>
  A fitter for the examples: the least-squares line in exact arithmetic (of least norm
  after scaling the columns when all years are equal).  It stands in for the library at
  the examples only.  The library computes in doubles and agrees with it up to rounding:
  for the single point (2000, 100) it returns 0.024999999999999988 and 49.999999999999986
  where this line has 1 / 40 and 50.
\<close>

definition least_squares_line :: fitter where
  "least_squares_line xs ys =
     (if xs = [] \<or> length xs \<noteq> length ys then Inl TypeError
      else if list_ex (\<lambda>x. x = None) xs then Inl LinAlgError
      else
        (let x = map the xs;
             n = real (length x);
             sx = sum_list x;
             sy = sum_list ys;
             sxx = sum_list (map (\<lambda>a. a * a) x);
             sxy = sum_list (map (\<lambda>(a, b). a * b) (zip x ys));
             d = n * sxx - sx * sx
         in if d \<noteq> 0 then
              (let slope = (n * sxy - sx * sy) / d in Inr (slope, (sy - slope * sx) / n))
            else if hd x = 0 then Inl LinAlgError
            else Inr (sy / n / (2 * hd x), sy / n / 2)))"

definition recs3 :: "raw_record list" where
  "recs3 =
     [[(''countryiso3code'', JStr ''USA''), (''date'', JStr ''2000''), (''value'', JNum 100)],
      [(''countryiso3code'', JStr ''CHN''), (''date'', JStr ''2000''), (''value'', JNull)],
      [(''countryiso3code'', JStr ''USA''), (''date'', JStr ''2001''),
       (''value'', JStr ''unavailable'')]]"

definition records3 :: json where
  "records3 = JArr (map JObj recs3)"





text \<open>The table of \<open>records3\<close>.\<close>

definition rows3 :: "row list" where
  "rows3 =
     [\<lparr>countryiso3code = JStr ''USA'', date = Some 2000, val = Some 100\<rparr>,
      \<lparr>countryiso3code = JStr ''CHN'', date = Some 2000, val = None\<rparr>,
      \<lparr>countryiso3code = JStr ''USA'', date = Some 2001, val = None\<rparr>]"

text \<open>
  The figure of \<open>rows3\<close> for the selection USA, FRA with the trend overlay: the two raw
  traces, and the trend through (2000, 100) and (2001, 0) that \<open>least_squares_line\<close>
  gives the United States.
\<close>

definition fig3 :: figure where
  "fig3 =
     \<lparr>title = ''GDP (current US$) Over Time'', y_label = ''GDP (current US$)'',
      traces =
        [\<lparr>trace_name = JStr ''USA'', trace_x = [Some 2000, Some 2001],
          trace_y = [Some 100, None], dash = False, opacity = 1\<rparr>,
         \<lparr>trace_name = JStr ''CHN'', trace_x = [Some 2000], trace_y = [None],
          dash = False, opacity = 1\<rparr>,
         \<lparr>trace_name = JStr ''United States trend'', trace_x = [Some 2000, Some 2001],
          trace_y = [Some 100, Some 0], dash = True, opacity = 1 / 2\<rparr>],
      fig_height = Some 700\<rparr>"



section \<open>The fetch and its outcomes\<close>

text \<open>
  C1, as the code has it.  The test on the payload is \<^verbatim>\<open>len(data) > 1\<close>, and the status
  test is \<^verbatim>\<open>== 200\<close>.  A response with status 200 whose payload is a list of at least two
  elements makes the fetch return the second element.  A response with any other status, or
  with status 200 and a payload of length at most one, makes it return \<^verbatim>\<open>None\<close>.  When the
  (cached) fetch returns \<^verbatim>\<open>None\<close> for a non-empty selection, the page shows nothing: no
  chart and no error message.
\<close>

theorem fetch_wb_data_envelope:
  "(net (length wire) (fetch_request i c s e) = Inr resp \<and> status_code resp = 200 \<and>
      body resp = Some (JArr xs) \<and> 2 \<le> length xs
      \<longrightarrow> fst (fetch_wb_data net i c s e wire) = Inr (xs ! 1)) \<and>
   (net (length wire) (fetch_request i c s e) = Inr resp \<and>
      (status_code resp \<noteq> 200 \<or> (\<exists>d n. body resp = Some d \<and> py_len d = Inr n \<and> n \<le> 1))
      \<longrightarrow> fst (fetch_wb_data net i c s e wire) = Inr JNull) \<and>
   (sel \<noteq> [] \<and> fetch_wb_data_cached net ind (Codes sel) (Some y0) (Some y1) st = (Inr JNull, st')
      \<longrightarrow> main parse fit net sel ind show_trend y0 y1 st = (Nothing, st'))"
proof (intro conjI impI)
  assume "net (length wire) (fetch_request i c s e) = Inr resp \<and> status_code resp = 200 \<and>
      body resp = Some (JArr xs) \<and> 2 \<le> length xs"
  then show "fst (fetch_wb_data net i c s e wire) = Inr (xs ! 1)"
    by (simp add: fetch_wb_data_def requests_get_def response_json_def)
next
  assume h: "net (length wire) (fetch_request i c s e) = Inr resp \<and>
      (status_code resp \<noteq> 200 \<or> (\<exists>d n. body resp = Some d \<and> py_len d = Inr n \<and> n \<le> 1))"
  show "fst (fetch_wb_data net i c s e wire) = Inr JNull"
  proof (cases "status_code resp = 200")
    case True
    with h obtain d n where "body resp = Some d" "py_len d = Inr n" "n \<le> 1"
      by blast
    with h True show ?thesis
      by (simp add: fetch_wb_data_def requests_get_def response_json_def)
  next
    case False
    with h show ?thesis
      by (simp add: fetch_wb_data_def requests_get_def)
  qed
next
  assume "sel \<noteq> [] \<and>
      fetch_wb_data_cached net ind (Codes sel) (Some y0) (Some y1) st = (Inr JNull, st')"
  then show "main parse fit net sel ind show_trend y0 y1 st = (Nothing, st')"
    by (simp add: main_def)
qed

text \<open>
  The three parts at concrete responses: an envelope of two elements, a 404, the
  one-element message the endpoint sends for a bad request, and the page after the 404.
\<close>

theorem fetch_wb_data_envelope_witness:
  "fst (fetch_wb_data (net_of 200 (Some (JArr [JObj [], records3]))) ''NY.GDP.MKTP.CD''
          (Codes [''USA'']) (Some 2000) (Some 2020) []) = Inr records3 \<and>
   fst (fetch_wb_data (net_of 404 None) ''NY.GDP.MKTP.CD''
          (Codes [''USA'']) (Some 2000) (Some 2020) []) = Inr JNull \<and>
   fst (fetch_wb_data (net_of 200 (Some (JArr [JObj [(''message'', JStr ''Invalid value'')]])))
          ''NY.GDP.MKTP.CD'' (Codes [''USA'']) (Some 2000) (Some 2020) []) = Inr JNull \<and>
   fst (main parse_decimal least_squares_line (net_of 404 None) [''USA''] ''NY.GDP.MKTP.CD'' True 2000 2020 st0)
     = Nothing"
proof -
  let ?i = "''NY.GDP.MKTP.CD''" and ?c = "Codes [''USA'']"
  let ?ok = "\<lparr>status_code = 200, body = Some (JArr [JObj [], records3])\<rparr>"
  let ?nf = "\<lparr>status_code = 404, body = None\<rparr>"
  let ?msg = "\<lparr>status_code = 200, body = Some (JArr [JObj [(''message'', JStr ''Invalid value'')]])\<rparr>"
  have a: "net_of 200 (Some (JArr [JObj [], records3])) (length [])
             (fetch_request ?i ?c (Some 2000) (Some 2020)) = Inr ?ok
           \<and> status_code ?ok = 200 \<and> body ?ok = Some (JArr [JObj [], records3])
           \<and> 2 \<le> length [JObj [], records3]"
    by (simp add: net_of_def)
  have b: "net_of 404 None (length []) (fetch_request ?i ?c (Some 2000) (Some 2020)) = Inr ?nf
           \<and> (status_code ?nf \<noteq> 200 \<or> (\<exists>d n. body ?nf = Some d \<and> py_len d = Inr n \<and> n \<le> 1))"
    by (simp add: net_of_def)
  have c: "net_of 200 (Some (JArr [JObj [(''message'', JStr ''Invalid value'')]])) (length [])
             (fetch_request ?i ?c (Some 2000) (Some 2020)) = Inr ?msg
           \<and> (status_code ?msg \<noteq> 200 \<or> (\<exists>d n. body ?msg = Some d \<and> py_len d = Inr n \<and> n \<le> 1))"
    by (simp add: net_of_def)
  have d: "[''USA''] \<noteq> [] \<and>
           fetch_wb_data_cached (net_of 404 None) ?i ?c (Some 2000) (Some 2020) st0
             = (Inr JNull, snd (fetch_wb_data_cached (net_of 404 None) ?i ?c (Some 2000) (Some 2020) st0))"
    by (simp add: prod_eq_iff fetch_wb_data_cached_def fetch_wb_data_def requests_get_def
        net_of_def st0_def)
  from a fetch_wb_data_envelope [of "net_of 200 (Some (JArr [JObj [], records3]))" "[]" ?i ?c
      "Some 2000" "Some 2020" ?ok "[JObj [], records3]"]
  have 1: "fst (fetch_wb_data (net_of 200 (Some (JArr [JObj [], records3]))) ?i ?c
             (Some 2000) (Some 2020) []) = Inr records3"
    by simp
  from b fetch_wb_data_envelope [of "net_of 404 None" "[]" ?i ?c "Some 2000" "Some 2020" ?nf]
  have 2: "fst (fetch_wb_data (net_of 404 None) ?i ?c (Some 2000) (Some 2020) []) = Inr JNull"
    by blast
  from c fetch_wb_data_envelope [of "net_of 200 (Some (JArr [JObj [(''message'', JStr ''Invalid value'')]]))"
      "[]" ?i ?c "Some 2000" "Some 2020" ?msg]
  have 3: "fst (fetch_wb_data (net_of 200 (Some (JArr [JObj [(''message'', JStr ''Invalid value'')]])))
             ?i ?c (Some 2000) (Some 2020) []) = Inr JNull"
    by blast
  from d fetch_wb_data_envelope [where net = "net_of 404 None" and sel = "[''USA'']" and ind = ?i
      and ?y0.0 = 2000 and ?y1.0 = 2020 and st = st0
      and st' = "snd (fetch_wb_data_cached (net_of 404 None) ?i ?c (Some 2000) (Some 2020) st0)"
      and parse = parse_decimal and fit = least_squares_line and show_trend = True]
  have 4: "fst (main parse_decimal least_squares_line (net_of 404 None) [''USA''] ?i True 2000 2020 st0) = Nothing"
    by simp
  from 1 2 3 4 show ?thesis by blast
qed

text \<open>
  The claim as written asks for \<^verbatim>\<open>None\<close> whenever the payload is not a two-element
  envelope.  A payload of three elements under status 200 is not one, and the fetch returns
  its second element.
\<close>

theorem fetch_wb_data_three_elements_counterexample:
  "py_len (JArr [JObj [], records3, JNull]) = Inr 3 \<and>
   fst (fetch_wb_data (net_of 200 (Some (JArr [JObj [], records3, JNull]))) ''NY.GDP.MKTP.CD''
          (Codes [''USA'']) (Some 2000) (Some 2020) []) = Inr records3 \<and>
   records3 \<noteq> JNull"
  by (simp add: fetch_wb_data_def requests_get_def response_json_def net_of_def records3_def recs3_def)

section \<open>The cache\<close>

lemma cached_hit:
  "cache st (i, c, s, e) = Some v \<Longrightarrow> fetch_wb_data_cached net i c s e st = (Inr v, st)"
  by (simp add: fetch_wb_data_cached_def)

lemma cached_keeps:
  "cache st k = Some v \<Longrightarrow> cache (snd (fetch_wb_data_cached net i c s e st)) k = Some v"
  by (cases "fetch_wb_data net i c s e (sent st)")
     (auto simp: fetch_wb_data_cached_def split: option.splits sum.splits)

lemma cached_stores:
  "fetch_wb_data_cached net i c s e st = (Inr v, st1) \<Longrightarrow> cache st1 (i, c, s, e) = Some v"
  by (cases "fetch_wb_data net i c s e (sent st)")
     (auto simp: fetch_wb_data_cached_def split: option.splits sum.splits)

lemma fetch_sends_one:
  "length (snd (fetch_wb_data net i c s e wire)) = length wire + 1"
  by (auto simp: fetch_wb_data_def requests_get_def split: sum.splits prod.splits)

lemma cached_sends_le:
  "length (sent (snd (fetch_wb_data_cached net i c s e st))) \<le> length (sent st) + 1"
  using fetch_sends_one [of net i c s e "sent st"]
  by (cases "fetch_wb_data net i c s e (sent st)")
     (auto simp: fetch_wb_data_cached_def split: option.splits sum.splits)

lemma fetch_all_keeps:
  "cache st k = Some v \<Longrightarrow> cache (fetch_all net ks st) k = Some v"
proof (induction ks arbitrary: st)
  case Nil
  then show ?case by simp
next
  case (Cons a ks)
  obtain i c s e where a: "a = (i, c, s, e)" by (cases a) auto
  from Cons.prems have "cache (snd (fetch_wb_data_cached net i c s e st)) k = Some v"
    by (rule cached_keeps)
  from Cons.IH [OF this] a show ?case by simp
qed

lemma cached_raises:
  assumes "fetch_wb_data_cached net i c s e st = (Inl err, st1)"
  shows "cache st (i, c, s, e) = None \<and> cache st1 = cache st \<and>
         sent st1 = snd (fetch_wb_data net i c s e (sent st))"
  using assms
  by (cases "fetch_wb_data net i c s e (sent st)")
     (auto simp: fetch_wb_data_cached_def split: option.splits sum.splits)

lemma cached_miss_sends:
  assumes "cache st (i, c, s, e) = None"
  shows "length (sent (snd (fetch_wb_data_cached net i c s e st))) = length (sent st) + 1"
  using assms fetch_sends_one [of net i c s e "sent st"]
  by (cases "fetch_wb_data net i c s e (sent st)")
     (auto simp: fetch_wb_data_cached_def split: sum.splits)

text \<open>
  C4, as the code has it.  When a fetch returns a value, it has sent at most one request,
  and the value stays: the same call made again returns the same value and sends nothing
  (the state, with its list of sent requests, is unchanged), and so does the same call made
  after any further sequence of fetches, on any network.  Nothing in the process removes
  an entry.  When a fetch raises, whatever the exception, it has sent one request and the
  cache is as it was, without an entry for the call: the same call made again sends a
  second request.
\<close>

theorem fetch_wb_data_memoized:
  "(fetch_wb_data_cached net i c s e st = (Inr v, st1) \<longrightarrow>
      length (sent st1) \<le> length (sent st) + 1 \<and>
      fetch_wb_data_cached net i c s e st1 = (Inr v, st1) \<and>
      fetch_wb_data_cached net2 i c s e (fetch_all net1 ks st1) = (Inr v, fetch_all net1 ks st1)) \<and>
   (fetch_wb_data_cached net i c s e st = (Inl err, st1) \<longrightarrow>
      cache st1 = cache st \<and> cache st1 (i, c, s, e) = None \<and>
      length (sent st1) = length (sent st) + 1 \<and>
      length (sent (snd (fetch_wb_data_cached net2 i c s e st1))) = length (sent st) + 2)"
proof (intro conjI impI)
  assume h: "fetch_wb_data_cached net i c s e st = (Inr v, st1)"
  show "length (sent st1) \<le> length (sent st) + 1"
    using cached_sends_le [of net i c s e st] h by simp
  from h have k: "cache st1 (i, c, s, e) = Some v" by (rule cached_stores)
  then show "fetch_wb_data_cached net i c s e st1 = (Inr v, st1)" by (rule cached_hit)
  from k have "cache (fetch_all net1 ks st1) (i, c, s, e) = Some v" by (rule fetch_all_keeps)
  then show "fetch_wb_data_cached net2 i c s e (fetch_all net1 ks st1)
               = (Inr v, fetch_all net1 ks st1)"
    by (rule cached_hit)
next
  assume h: "fetch_wb_data_cached net i c s e st = (Inl err, st1)"
  from cached_raises [OF h] have m: "cache st (i, c, s, e) = None" and k: "cache st1 = cache st"
    and w: "sent st1 = snd (fetch_wb_data net i c s e (sent st))"
    by simp_all
  show "cache st1 = cache st" by (rule k)
  from m k show n: "cache st1 (i, c, s, e) = None" by simp
  from w show l: "length (sent st1) = length (sent st) + 1"
    by (simp add: fetch_sends_one)
  from cached_miss_sends [OF n, of net2] l
  show "length (sent (snd (fetch_wb_data_cached net2 i c s e st1))) = length (sent st) + 2"
    by simp
qed

text \<open>
  A first fetch on a working network, then the network goes down and another query is
  tried: the first query still returns its records, and one request was sent for it.  A
  fetch that meets a body that is not JSON raises, stores nothing, and the same fetch made
  again sends a second request; so does a fetch on a network that is down.
\<close>

theorem fetch_wb_data_memoized_witness:
  "fst (fetch_wb_data_cached (net_of 200 (Some (JArr [JObj [], records3]))) ''NY.GDP.MKTP.CD''
          (Codes [''USA'']) (Some 2000) (Some 2020) st0) = Inr records3 \<and>
   length (sent (snd (fetch_wb_data_cached (net_of 200 (Some (JArr [JObj [], records3])))
          ''NY.GDP.MKTP.CD'' (Codes [''USA'']) (Some 2000) (Some 2020) st0))) \<le> 1 \<and>
   fst (fetch_wb_data_cached net_down ''NY.GDP.MKTP.CD'' (Codes [''USA'']) (Some 2000) (Some 2020)
          (fetch_all net_down [(''SL.UEM.TOTL.ZS'', Codes [''FRA''], Some 2000, Some 2020)]
             (snd (fetch_wb_data_cached (net_of 200 (Some (JArr [JObj [], records3])))
                ''NY.GDP.MKTP.CD'' (Codes [''USA'']) (Some 2000) (Some 2020) st0))))
     = Inr records3 \<and>
   fst (fetch_wb_data_cached (net_of 200 None) ''NY.GDP.MKTP.CD'' (Codes [''USA''])
          (Some 2000) (Some 2020) st0) = Inl JSONDecodeError \<and>
   cache (snd (fetch_wb_data_cached (net_of 200 None) ''NY.GDP.MKTP.CD'' (Codes [''USA''])
          (Some 2000) (Some 2020) st0)) (''NY.GDP.MKTP.CD'', Codes [''USA''], Some 2000, Some 2020)
     = None \<and>
   length (sent (snd (fetch_wb_data_cached (net_of 200 None) ''NY.GDP.MKTP.CD'' (Codes [''USA''])
      (Some 2000) (Some 2020)
      (snd (fetch_wb_data_cached (net_of 200 None) ''NY.GDP.MKTP.CD'' (Codes [''USA''])
         (Some 2000) (Some 2020) st0))))) = 2 \<and>
   fst (fetch_wb_data_cached net_down ''NY.GDP.MKTP.CD'' (Codes [''USA''])
          (Some 2000) (Some 2020) st0) = Inl ConnectionError \<and>
   cache (snd (fetch_wb_data_cached net_down ''NY.GDP.MKTP.CD'' (Codes [''USA''])
          (Some 2000) (Some 2020) st0)) (''NY.GDP.MKTP.CD'', Codes [''USA''], Some 2000, Some 2020)
     = None"
proof -
  let ?net = "net_of 200 (Some (JArr [JObj [], records3]))"
  let ?bad = "net_of 200 None"
  let ?i = "''NY.GDP.MKTP.CD''" and ?c = "Codes [''USA'']"
  let ?st1 = "snd (fetch_wb_data_cached ?net ?i ?c (Some 2000) (Some 2020) st0)"
  let ?sb = "snd (fetch_wb_data_cached ?bad ?i ?c (Some 2000) (Some 2020) st0)"
  let ?sd = "snd (fetch_wb_data_cached net_down ?i ?c (Some 2000) (Some 2020) st0)"
  have f: "fst (fetch_wb_data_cached ?net ?i ?c (Some 2000) (Some 2020) st0) = Inr records3"
    by (simp add: fetch_wb_data_cached_def fetch_wb_data_def requests_get_def response_json_def
        net_of_def st0_def)
  then have h: "fetch_wb_data_cached ?net ?i ?c (Some 2000) (Some 2020) st0 = (Inr records3, ?st1)"
    by (simp add: prod_eq_iff)
  have z: "length (sent st0) = 0"
    by (simp add: st0_def)
  from h fetch_wb_data_memoized [of ?net ?i ?c "Some 2000" "Some 2020" st0 records3 ?st1 net_down
      net_down "[(''SL.UEM.TOTL.ZS'', Codes [''FRA''], Some 2000, Some 2020)]"]
  have 1: "length (sent ?st1) \<le> length (sent st0) + 1 \<and>
        fetch_wb_data_cached net_down ?i ?c (Some 2000) (Some 2020)
          (fetch_all net_down [(''SL.UEM.TOTL.ZS'', Codes [''FRA''], Some 2000, Some 2020)] ?st1)
        = (Inr records3, fetch_all net_down [(''SL.UEM.TOTL.ZS'', Codes [''FRA''], Some 2000, Some 2020)] ?st1)"
    by blast
  have fb: "fst (fetch_wb_data_cached ?bad ?i ?c (Some 2000) (Some 2020) st0) = Inl JSONDecodeError"
    by (simp add: fetch_wb_data_cached_def fetch_wb_data_def requests_get_def response_json_def
        net_of_def st0_def)
  then have hb: "fetch_wb_data_cached ?bad ?i ?c (Some 2000) (Some 2020) st0 = (Inl JSONDecodeError, ?sb)"
    by (simp add: prod_eq_iff)
  from hb fetch_wb_data_memoized [where net = ?bad and i = ?i and c = ?c and s = "Some 2000"
      and e = "Some 2020" and st = st0 and err = JSONDecodeError and ?st1.0 = ?sb and ?net2.0 = ?bad]
  have 2: "cache ?sb (?i, ?c, Some 2000, Some 2020) = None \<and>
           length (sent (snd (fetch_wb_data_cached ?bad ?i ?c (Some 2000) (Some 2020) ?sb)))
             = length (sent st0) + 2"
    by blast
  have fd: "fst (fetch_wb_data_cached net_down ?i ?c (Some 2000) (Some 2020) st0) = Inl ConnectionError"
    by (simp add: fetch_wb_data_cached_def fetch_wb_data_def requests_get_def net_down_def st0_def)
  then have hd: "fetch_wb_data_cached net_down ?i ?c (Some 2000) (Some 2020) st0 = (Inl ConnectionError, ?sd)"
    by (simp add: prod_eq_iff)
  from hd fetch_wb_data_memoized [where net = net_down and i = ?i and c = ?c and s = "Some 2000"
      and e = "Some 2020" and st = st0 and err = ConnectionError and ?st1.0 = ?sd]
  have 3: "cache ?sd (?i, ?c, Some 2000, Some 2020) = None"
    by blast
  from f z 1 fb 2 fd 3 show ?thesis by simp
qed

text \<open>
  The claim as written counts at most one request for two identical calls.  A call that
  raises stores nothing: with the network down, each of the two calls sends a request.
\<close>

theorem fetch_wb_data_twice_down_counterexample:
  "fst (fetch_wb_data_cached net_down ''NY.GDP.MKTP.CD'' (Codes [''USA'']) (Some 2000) (Some 2020) st0)
     = Inl ConnectionError \<and>
   length (sent (snd (fetch_wb_data_cached net_down ''NY.GDP.MKTP.CD'' (Codes [''USA''])
      (Some 2000) (Some 2020)
      (snd (fetch_wb_data_cached net_down ''NY.GDP.MKTP.CD'' (Codes [''USA''])
         (Some 2000) (Some 2020) st0))))) = 2"
  by (simp add: fetch_wb_data_cached_def fetch_wb_data_def requests_get_def net_down_def st0_def)

section \<open>The empty result\<close>

text \<open>
  C9.  When the fetch returns the empty list, the page shows nothing, as it does when the
  fetch returns \<^verbatim>\<open>None\<close>; the state after the page is the state after the fetch.  An
  envelope with status 200 whose records element is the empty list, met on a cache miss,
  leads there.  No table is built: building the chart from the empty list would raise (the
  frame has no column), and the page shows no error.
\<close>

theorem empty_records_like_no_data:
  "(sel \<noteq> [] \<and> (d = JArr [] \<or> d = JNull) \<and>
      fetch_wb_data_cached net ind (Codes sel) (Some y0) (Some y1) st = (Inr d, st')
      \<longrightarrow> main parse fit net sel ind show_trend y0 y1 st = (Nothing, st')) \<and>
   (sel \<noteq> [] \<and> cache st (ind, Codes sel, Some y0, Some y1) = None \<and>
      net (length (sent st)) (fetch_request ind (Codes sel) (Some y0) (Some y1)) = Inr resp \<and>
      status_code resp = 200 \<and> body resp = Some (JArr [meta, JArr []])
      \<longrightarrow> fst (main parse fit net sel ind show_trend y0 y1 st) = Nothing) \<and>
   build_chart parse fit sel ind show_trend (JArr []) = Inl (KeyError ''date'')"
  by (auto simp: main_def fetch_wb_data_cached_def fetch_wb_data_def requests_get_def
      response_json_def build_chart_def DataFrame_def normalize_def getitem_column_def
      has_column_def)

theorem empty_records_like_no_data_witness:
  "fst (fetch_wb_data_cached (net_of 200 (Some (JArr [JObj [], JArr []]))) ''NY.GDP.MKTP.CD''
          (Codes [''USA'']) (Some 2000) (Some 2020) st0) = Inr (JArr []) \<and>
   fst (main parse_decimal least_squares_line (net_of 200 (Some (JArr [JObj [], JArr []]))) [''USA'']
          ''NY.GDP.MKTP.CD'' True 2000 2020 st0) = Nothing \<and>
   main parse_decimal least_squares_line (net_of 200 (Some (JArr [JObj [], JArr []]))) [''USA'']
          ''NY.GDP.MKTP.CD'' True 2000 2020 st0
     = (Nothing, snd (fetch_wb_data_cached (net_of 200 (Some (JArr [JObj [], JArr []])))
          ''NY.GDP.MKTP.CD'' (Codes [''USA'']) (Some 2000) (Some 2020) st0))"
proof -
  let ?net = "net_of 200 (Some (JArr [JObj [], JArr []]))"
  let ?i = "''NY.GDP.MKTP.CD''" and ?c = "Codes [''USA'']"
  let ?st1 = "snd (fetch_wb_data_cached ?net ?i ?c (Some 2000) (Some 2020) st0)"
  let ?resp = "\<lparr>status_code = 200, body = Some (JArr [JObj [], JArr []])\<rparr>"
  have f: "fst (fetch_wb_data_cached ?net ?i ?c (Some 2000) (Some 2020) st0) = Inr (JArr [])"
    by (simp add: fetch_wb_data_cached_def fetch_wb_data_def requests_get_def response_json_def
        net_of_def st0_def)
  then have h: "[''USA''] \<noteq> [] \<and> (JArr [] = JArr [] \<or> JArr [] = JNull) \<and>
      fetch_wb_data_cached ?net ?i ?c (Some 2000) (Some 2020) st0 = (Inr (JArr []), ?st1)"
    by (simp add: prod_eq_iff)
  have g: "[''USA''] \<noteq> [] \<and> cache st0 (?i, ?c, Some 2000, Some 2020) = None \<and>
      ?net (length (sent st0)) (fetch_request ?i ?c (Some 2000) (Some 2020)) = Inr ?resp \<and>
      status_code ?resp = 200 \<and> body ?resp = Some (JArr [JObj [], JArr []])"
    by (simp add: st0_def net_of_def)
  from h empty_records_like_no_data [where sel = "[''USA'']" and d = "JArr []" and net = ?net
      and ind = ?i and ?y0.0 = 2000 and ?y1.0 = 2020 and st = st0 and st' = ?st1
      and parse = parse_decimal and fit = least_squares_line and show_trend = True]
  have 1: "main parse_decimal least_squares_line ?net [''USA''] ?i True 2000 2020 st0 = (Nothing, ?st1)"
    by blast
  from g empty_records_like_no_data [where sel = "[''USA'']" and net = ?net
      and ind = ?i and ?y0.0 = 2000 and ?y1.0 = 2020 and st = st0 and resp = ?resp
      and meta = "JObj []" and parse = parse_decimal and fit = least_squares_line and show_trend = True]
  have 2: "fst (main parse_decimal least_squares_line ?net [''USA''] ?i True 2000 2020 st0) = Nothing"
    by blast
  from f 1 2 show ?thesis by blast
qed

section \<open>Normalization\<close>
















section \<open>The chart and the trend overlay\<close>

lemma trend_trace_SomeD:
  assumes "trend_trace fit df c = Inr (Some t)"
  shows "country_data df c \<noteq> [] \<and> dash t \<and> trace_x t = map date (country_data df c) \<and>
         (\<exists>lab z. map_of countries c = Some lab \<and> trace_name t = JStr (lab @ '' trend'') \<and>
            country_fit fit df c = Inr z \<and> trace_y t = map (poly1d z) (map date (country_data df c)))"
  using assms
  by (auto simp: trend_trace_def dict_get_def split: if_splits sum.splits option.splits)

lemma trend_trace_NoneD:
  "trend_trace fit df c = Inr None \<Longrightarrow> country_data df c = []"
  by (auto simp: trend_trace_def split: if_splits sum.splits)

lemma trend_trace_empty:
  "country_data df c = [] \<Longrightarrow> trend_trace fit df c = Inr None"
  by (simp add: trend_trace_def)

lemma add_trends_shape:
  "add_trends fit df sel ts = Inr ts' \<Longrightarrow>
   \<exists>new. ts' = ts @ new \<and>
     list_all2 (\<lambda>c t. trend_trace fit df c = Inr (Some t)) (filter (\<lambda>c. country_data df c \<noteq> []) sel) new"
proof (induction sel arbitrary: ts)
  case Nil
  then show ?case by simp
next
  case (Cons c rest)
  show ?case
  proof (cases "trend_trace fit df c")
    case (Inl e)
    with Cons.prems show ?thesis by simp
  next
    case (Inr o1)
    show ?thesis
    proof (cases o1)
      case None
      with Inr Cons.prems have "add_trends fit df rest ts = Inr ts'" by simp
      from Cons.IH [OF this] None Inr show ?thesis
        by (auto dest: trend_trace_NoneD)
    next
      case (Some t)
      with Inr Cons.prems have "add_trends fit df rest (ts @ [t]) = Inr ts'" by simp
      from Cons.IH [OF this] obtain new where
        n: "ts' = (ts @ [t]) @ new"
           "list_all2 (\<lambda>c t. trend_trace fit df c = Inr (Some t)) (filter (\<lambda>c. country_data df c \<noteq> []) rest) new"
        by blast
      from Some Inr have "country_data df c \<noteq> []"
        by (auto dest: trend_trace_SomeD)
      with n Some Inr show ?thesis
        by (intro exI [of _ "t # new"]) simp
    qed
  qed
qed

lemma add_trends_removeAll:
  "country_data df c = [] \<Longrightarrow> add_trends fit df sel ts = add_trends fit df (removeAll c sel) ts"
  by (induction sel arbitrary: ts) (auto simp: trend_trace_empty split: sum.splits option.splits)

lemma set_unique: "set (unique xs) = set xs"
  by (simp add: unique_def)

lemma distinct_unique: "distinct (unique xs)"
  by (simp add: unique_def)

lemma distinct_color_groups: "distinct (color_groups df)"
  by (simp add: color_groups_def distinct_unique)

lemma color_groups_present:
  "k \<in> set (map countryiso3code df) \<Longrightarrow> k \<noteq> JNull \<Longrightarrow> k \<in> set (color_groups df)"
  by (simp add: color_groups_def set_unique)

lemma set_color_groups:
  "\<forall>r\<in>set df. countryiso3code r \<noteq> JNull \<Longrightarrow>
   set (color_groups df) = set (map countryiso3code df)"
  by (auto simp: color_groups_def set_unique)

lemma raw_names:
  "map trace_name (traces (px_line df l t)) = color_groups df"
  by (simp add: px_line_def raw_trace_def comp_def)

lemma raw_solid: "\<forall>t\<in>set (traces (px_line df l tt)). \<not> dash t"
  by (auto simp: px_line_def raw_trace_def)

lemma trends_dashed:
  "list_all2 (\<lambda>c t. trend_trace fit df c = Inr (Some t)) cs new \<Longrightarrow> \<forall>t\<in>set new. dash t"
  by (induction rule: list_all2_induct) (auto dest: trend_trace_SomeD)

lemma assemble_traces:
  assumes "assemble fit df sel label show_trend = Inr fig"
  shows "\<exists>new. traces fig = traces (px_line df label (label @ '' Over Time'')) @ new \<and>
           (if show_trend
            then list_all2 (\<lambda>c t. trend_trace fit df c = Inr (Some t)) (filter (\<lambda>c. country_data df c \<noteq> []) sel) new
            else new = [])"
proof (cases show_trend)
  case True
  with assms obtain ts where
    ts: "add_trends fit df sel (traces (px_line df label (label @ '' Over Time''))) = Inr ts"
      and fig: "traces fig = ts"
    by (auto simp: assemble_def Let_def split: sum.splits)
  from add_trends_shape [OF ts] fig True show ?thesis by auto
next
  case False
  with assms show ?thesis by (auto simp: assemble_def Let_def)
qed

lemma assemble_fig3:
  "assemble least_squares_line rows3 [''USA'', ''FRA''] ''GDP (current US$)'' True = Inr fig3"
  by (simp add: assemble_def px_line_def color_groups_def raw_trace_def rows3_def unique_def
      trend_trace_def country_data_def country_fit_def least_squares_line_def fillna_def
      dict_get_def countries_def poly1d_def Let_def fig3_def)

text \<open>
  C6.  The table is one whose rows all carry a country code (a string), as the rows of the
  specification's observation table do.  In the assembled figure the solid traces are the
  raw series: their names are pairwise distinct and are exactly the country codes present
  in the table, so there is one per distinct country.  The dashed traces are the trend
  series: none when the overlay is off, and otherwise one per selected country that has
  rows in the table, the selection being a list without repetition as the multiselect
  delivers it.
\<close>

theorem assemble_series_count:
  assumes "assemble fit df sel label show_trend = Inr fig" and "distinct sel"
    and "\<forall>r\<in>set df. \<exists>c. countryiso3code r = JStr c"
  shows "distinct (map trace_name (filter (\<lambda>t. \<not> dash t) (traces fig))) \<and>
         set (map trace_name (filter (\<lambda>t. \<not> dash t) (traces fig))) = set (map countryiso3code df) \<and>
         length (filter (\<lambda>t. \<not> dash t) (traces fig)) = card (set (map countryiso3code df)) \<and>
         length (filter dash (traces fig)) =
           (if show_trend then card {c \<in> set sel. country_data df c \<noteq> []} else 0)"
proof -
  let ?raw = "traces (px_line df label (label @ '' Over Time''))"
  from assemble_traces [OF assms(1)] obtain new where
    tr: "traces fig = ?raw @ new" and
    new: "if show_trend
            then list_all2 (\<lambda>c t. trend_trace fit df c = Inr (Some t))
                   (filter (\<lambda>c. country_data df c \<noteq> []) sel) new
            else new = []"
    by blast
  have dn: "\<forall>t\<in>set new. dash t"
    using new trends_dashed by (auto split: if_splits)
  have f1: "filter (\<lambda>t. \<not> dash t) (traces fig) = ?raw"
    using tr dn raw_solid [of df label "label @ '' Over Time''"]
    by (simp add: filter_id_conv filter_empty_conv)
  have f2: "filter dash (traces fig) = new"
    using tr dn raw_solid [of df label "label @ '' Over Time''"]
    by (simp add: filter_id_conv filter_empty_conv)
  have names: "map trace_name ?raw = color_groups df"
    by (rule raw_names)
  have codes: "\<forall>r\<in>set df. countryiso3code r \<noteq> JNull"
    using assms(3) by auto
  have d: "distinct (map trace_name ?raw)"
    by (simp only: names distinct_color_groups)
  have s: "set (map trace_name ?raw) = set (map countryiso3code df)"
    by (simp only: names set_color_groups [OF codes])
  have l: "length ?raw = card (set (map countryiso3code df))"
    using d s distinct_card [of "map trace_name ?raw"] by simp
  have n: "length new = (if show_trend then card {c \<in> set sel. country_data df c \<noteq> []} else 0)"
  proof (cases show_trend)
    case True
    with new have "length new = length (filter (\<lambda>c. country_data df c \<noteq> []) sel)"
      by (auto dest: list_all2_lengthD)
    also have "\<dots> = card (set (filter (\<lambda>c. country_data df c \<noteq> []) sel))"
      using assms(2) distinct_card [of "filter (\<lambda>c. country_data df c \<noteq> []) sel"] by simp
    finally show ?thesis using True by simp
  next
    case False
    with new show ?thesis by simp
  qed
  show ?thesis using f1 f2 d s l n by simp
qed

text \<open>The figure \<open>fig3\<close>: two countries in the table, one of the two selected has rows.\<close>

theorem assemble_series_count_witness:
  "assemble least_squares_line rows3 [''USA'', ''FRA''] ''GDP (current US$)'' True = Inr fig3 \<and>
   distinct [''USA'', ''FRA''] \<and>
   map countryiso3code rows3 = [JStr ''USA'', JStr ''CHN'', JStr ''USA''] \<and>
   map trace_name (filter (\<lambda>t. \<not> dash t) (traces fig3)) = [JStr ''USA'', JStr ''CHN''] \<and>
   length (filter (\<lambda>t. \<not> dash t) (traces fig3)) = card (set (map countryiso3code rows3)) \<and>
   length (filter dash (traces fig3)) = card {c \<in> set [''USA'', ''FRA'']. country_data rows3 c \<noteq> []} \<and>
   length (filter dash (traces fig3)) = 1"
proof -
  have d: "distinct [''USA'', ''FRA'']" by simp
  have c: "\<forall>r\<in>set rows3. \<exists>c. countryiso3code r = JStr c"
    by (simp add: rows3_def)
  have m: "map countryiso3code rows3 = [JStr ''USA'', JStr ''CHN'', JStr ''USA'']"
    by (simp add: rows3_def)
  have n: "map trace_name (filter (\<lambda>t. \<not> dash t) (traces fig3)) = [JStr ''USA'', JStr ''CHN'']"
          "length (filter dash (traces fig3)) = 1"
    by (simp_all add: fig3_def)
  from assemble_series_count [OF assemble_fig3 d c] n m assemble_fig3 d show ?thesis
    by simp
qed

text \<open>
  C7.  When no row of the table matches the country, the loop body adds no trace for it
  (the result is \<open>Inr None\<close>, not a line of any slope, and the fit is not called): the
  loop and the assembled figure are what they are without that country in the selection.
\<close>

theorem no_rows_no_trend:
  "country_data df c = [] \<longrightarrow>
     trend_trace fit df c = Inr None \<and>
     add_trends fit df sel ts = add_trends fit df (removeAll c sel) ts \<and>
     assemble fit df sel label True = assemble fit df (removeAll c sel) label True"
proof
  assume h: "country_data df c = []"
  then have 1: "trend_trace fit df c = Inr None" by (rule trend_trace_empty)
  from h have 2: "add_trends fit df sel ts = add_trends fit df (removeAll c sel) ts" for ts
    by (rule add_trends_removeAll)
  then have 3: "assemble fit df sel label True = assemble fit df (removeAll c sel) label True"
    by (simp add: assemble_def Let_def)
  from 1 2 3 show "trend_trace fit df c = Inr None \<and>
     add_trends fit df sel ts = add_trends fit df (removeAll c sel) ts \<and>
     assemble fit df sel label True = assemble fit df (removeAll c sel) label True"
    by blast
qed

text \<open>France is selected and has no row in \<open>rows3\<close>.\<close>

theorem no_rows_no_trend_witness:
  "country_data rows3 ''FRA'' = [] \<and>
   trend_trace least_squares_line rows3 ''FRA'' = Inr None \<and>
   assemble least_squares_line rows3 [''USA''] ''GDP (current US$)'' True = Inr fig3"
proof -
  have h: "country_data rows3 ''FRA'' = []"
    by (simp add: country_data_def rows3_def)
  have r: "removeAll ''FRA'' [''USA'', ''FRA''] = [''USA'']"
    by simp
  from h no_rows_no_trend [of rows3 "''FRA''" least_squares_line "[''USA'', ''FRA'']" "[]" "''GDP (current US$)''"]
  have "trend_trace least_squares_line rows3 ''FRA'' = Inr None \<and>
        assemble least_squares_line rows3 [''USA'', ''FRA''] ''GDP (current US$)'' True
          = assemble least_squares_line rows3 (removeAll ''FRA'' [''USA'', ''FRA'']) ''GDP (current US$)'' True"
    by blast
  with h r assemble_fig3 show ?thesis by simp
qed

lemma country_data_map_val:
  "country_data (map (\<lambda>r. r\<lparr>val := f r\<rparr>) df) c = map (\<lambda>r. r\<lparr>val := f r\<rparr>) (country_data df c)"
  by (simp add: country_data_def filter_map comp_def)

lemma trend_trace_fill:
  "trend_trace fit (map (\<lambda>r. r\<lparr>val := Some (fillna 0 (val r))\<rparr>) df) c = trend_trace fit df c"
proof -
  let ?g = "\<lambda>r. r\<lparr>val := Some (fillna 0 (val r))\<rparr>"
  have cd: "country_data (map ?g df) c = map ?g (country_data df c)"
    by (rule country_data_map_val)
  have d: "map date (map ?g xs) = map date xs" for xs
    by simp
  have v: "map (\<lambda>r. fillna 0 (val r)) (map ?g xs) = map (\<lambda>r. fillna 0 (val r)) xs" for xs
    by (simp add: fillna_def)
  show ?thesis
    unfolding trend_trace_def country_fit_def cd d v by simp
qed

lemma raw_trace_of_row:
  assumes "r \<in> set df" and "countryiso3code r \<noteq> JNull"
  shows "\<exists>t\<in>set (traces (px_line df l tt)). \<not> dash t \<and> trace_name t = countryiso3code r \<and>
           trace_y t = map val (filter (\<lambda>q. countryiso3code q = countryiso3code r) df)"
proof -
  from assms have "countryiso3code r \<in> set (color_groups df)"
    by (intro color_groups_present) simp_all
  then have "raw_trace df (countryiso3code r) \<in> set (traces (px_line df l tt))"
    by (simp add: px_line_def)
  then show ?thesis
    by (rule bexI [rotated]) (simp add: raw_trace_def)
qed

text \<open>
  C8.  The trend of a country computed from the table is the trend computed from the table
  in which every missing value has been replaced by 0: inside the fit a missing value
  counts as 0.  The raw series are untouched by the overlay: the figure with trends starts
  with exactly the traces of the figure without trends, and the raw trace of a row whose
  value is missing holds the values of its country as they are in the table, the missing
  marker among them.
\<close>

theorem missing_zero_only_in_fit:
  "trend_trace fit (map (\<lambda>r. r\<lparr>val := Some (fillna 0 (val r))\<rparr>) df) c = trend_trace fit df c \<and>
   (assemble fit df sel label True = Inr fig \<longrightarrow>
      (\<exists>fig0. assemble fit df sel label False = Inr fig0 \<and>
         take (length (traces fig0)) (traces fig) = traces fig0) \<and>
      (\<forall>r\<in>set df. val r = None \<and> countryiso3code r \<noteq> JNull \<longrightarrow>
         (\<exists>t\<in>set (traces fig). \<not> dash t \<and> trace_name t = countryiso3code r \<and>
            trace_y t = map val (filter (\<lambda>q. countryiso3code q = countryiso3code r) df) \<and>
            None \<in> set (trace_y t))))"
proof (intro conjI impI ballI)
  show "trend_trace fit (map (\<lambda>r. r\<lparr>val := Some (fillna 0 (val r))\<rparr>) df) c = trend_trace fit df c"
    by (rule trend_trace_fill)
next
  assume a: "assemble fit df sel label True = Inr fig"
  from assemble_traces [OF a] obtain new where
    tr: "traces fig = traces (px_line df label (label @ '' Over Time'')) @ new"
    by blast
  have "assemble fit df sel label False = Inr ((px_line df label (label @ '' Over Time''))\<lparr>fig_height := Some 700\<rparr>)"
    by (simp add: assemble_def Let_def)
  with tr show "\<exists>fig0. assemble fit df sel label False = Inr fig0 \<and>
         take (length (traces fig0)) (traces fig) = traces fig0"
    by simp
next
  fix r
  assume a: "assemble fit df sel label True = Inr fig"
    and r: "r \<in> set df" and m: "val r = None \<and> countryiso3code r \<noteq> JNull"
  from assemble_traces [OF a] obtain new where
    tr: "traces fig = traces (px_line df label (label @ '' Over Time'')) @ new"
    by blast
  from raw_trace_of_row [of r df label "label @ '' Over Time''"] r m obtain t where
    t: "t \<in> set (traces (px_line df label (label @ '' Over Time'')))" "\<not> dash t"
       "trace_name t = countryiso3code r"
       "trace_y t = map val (filter (\<lambda>q. countryiso3code q = countryiso3code r) df)"
    by blast
  from r m have "None \<in> set (map val (filter (\<lambda>q. countryiso3code q = countryiso3code r) df))"
    by force
  with t tr show "\<exists>t\<in>set (traces fig). \<not> dash t \<and> trace_name t = countryiso3code r \<and>
            trace_y t = map val (filter (\<lambda>q. countryiso3code q = countryiso3code r) df) \<and>
            None \<in> set (trace_y t)"
    by auto
qed

text \<open>
  In \<open>rows3\<close> the value of the United States for 2001 is missing.  The trend runs through
  (2001, 0), and the raw trace of the same figure keeps the missing marker there.
\<close>

theorem missing_zero_only_in_fit_witness:
  "assemble least_squares_line rows3 [''USA'', ''FRA''] ''GDP (current US$)'' True = Inr fig3 \<and>
   trace_y (traces fig3 ! 2) = [Some 100, Some 0] \<and>
   trace_y (traces fig3 ! 0) = [Some 100, None] \<and>
   trend_trace least_squares_line (map (\<lambda>r. r\<lparr>val := Some (fillna 0 (val r))\<rparr>) rows3) ''USA''
     = trend_trace least_squares_line rows3 ''USA'' \<and>
   (\<exists>fig0. assemble least_squares_line rows3 [''USA'', ''FRA''] ''GDP (current US$)'' False = Inr fig0 \<and>
      take (length (traces fig0)) (traces fig3) = traces fig0) \<and>
   (\<exists>t\<in>set (traces fig3). \<not> dash t \<and> trace_name t = JStr ''USA'' \<and> None \<in> set (trace_y t))"
proof -
  let ?r = "\<lparr>countryiso3code = JStr ''USA'', date = Some 2001, val = None\<rparr>"
  have e: "trace_y (traces fig3 ! 2) = [Some 100, Some 0]" "trace_y (traces fig3 ! 0) = [Some 100, None]"
    by (simp_all add: fig3_def)
  have r: "?r \<in> set rows3" "val ?r = None \<and> countryiso3code ?r \<noteq> JNull"
    by (simp_all add: rows3_def)
  note th = missing_zero_only_in_fit [of least_squares_line rows3 "''USA''" "[''USA'', ''FRA'']"
      "''GDP (current US$)''" fig3]
  from th have 1: "trend_trace least_squares_line (map (\<lambda>r. r\<lparr>val := Some (fillna 0 (val r))\<rparr>) rows3) ''USA''
     = trend_trace least_squares_line rows3 ''USA''"
    by blast
  from th assemble_fig3 have 2: "\<exists>fig0. assemble least_squares_line rows3 [''USA'', ''FRA''] ''GDP (current US$)'' False = Inr fig0 \<and>
      take (length (traces fig0)) (traces fig3) = traces fig0"
    by blast
  from th assemble_fig3 have "\<forall>r\<in>set rows3. val r = None \<and> countryiso3code r \<noteq> JNull \<longrightarrow>
         (\<exists>t\<in>set (traces fig3). \<not> dash t \<and> trace_name t = countryiso3code r \<and>
            trace_y t = map val (filter (\<lambda>q. countryiso3code q = countryiso3code r) rows3) \<and>
            None \<in> set (trace_y t))"
    by blast
  with r have "\<exists>t\<in>set (traces fig3). \<not> dash t \<and> trace_name t = countryiso3code ?r \<and>
            trace_y t = map val (filter (\<lambda>q. countryiso3code q = countryiso3code ?r) rows3) \<and>
            None \<in> set (trace_y t)"
    by blast
  then have 3: "\<exists>t\<in>set (traces fig3). \<not> dash t \<and> trace_name t = JStr ''USA'' \<and> None \<in> set (trace_y t)"
    by auto
  from assemble_fig3 e 1 2 3 show ?thesis by blast
qed

lemma country_data_other:
  "c \<noteq> k \<Longrightarrow>
   country_data (filter (\<lambda>r. countryiso3code r \<noteq> JStr k) df) c = country_data df c"
  by (auto simp: country_data_def intro: filter_cong)

lemma trend_trace_other:
  assumes "c \<noteq> k"
  shows "trend_trace fit (filter (\<lambda>r. countryiso3code r \<noteq> JStr k) df) c = trend_trace fit df c"
proof -
  have e: "country_data (filter (\<lambda>r. countryiso3code r \<noteq> JStr k) df) c = country_data df c"
    using assms by (rule country_data_other)
  show ?thesis
    unfolding trend_trace_def country_fit_def e by (rule refl)
qed

lemma add_trends_other:
  "k \<notin> set sel \<Longrightarrow>
   add_trends fit (filter (\<lambda>r. countryiso3code r \<noteq> JStr k) df) sel ts = add_trends fit df sel ts"
proof (induction sel arbitrary: ts)
  case Nil
  then show ?case by simp
next
  case (Cons c rest)
  then have "c \<noteq> k" and "k \<notin> set rest" by auto
  with Cons.IH show ?case
    by (simp add: trend_trace_other split: sum.splits option.splits)
qed

lemma trends_from_selection:
  assumes "list_all2 (\<lambda>c t. trend_trace fit df c = Inr (Some t)) cs new" and "t \<in> set new"
  shows "\<exists>c\<in>set cs. trend_trace fit df c = Inr (Some t)"
  using assms by (induction rule: list_all2_induct) auto

text \<open>
  C10.  Every dashed trace of an assembled figure comes from a country of the selection
  that has rows in the table: it is named by the catalog label of that country followed by
  \<^verbatim>\<open> trend\<close>, and its years are the years of that country's rows.  Every country cell of
  the table names a solid trace, selected or not.  The rows of a country outside the
  selection have no part in the overlay: the loop adds the same traces with or without them.
\<close>

theorem trends_only_for_selection:
  "(assemble fit df sel label True = Inr fig \<longrightarrow>
      (\<forall>t\<in>set (traces fig). dash t \<longrightarrow>
         (\<exists>c\<in>set sel. \<exists>lab. map_of countries c = Some lab \<and>
            trace_name t = JStr (lab @ '' trend'') \<and> country_data df c \<noteq> [] \<and>
            trace_x t = map date (country_data df c))) \<and>
      (\<forall>r\<in>set df. countryiso3code r \<noteq> JNull \<longrightarrow>
         (\<exists>t\<in>set (traces fig). \<not> dash t \<and> trace_name t = countryiso3code r))) \<and>
   (k \<notin> set sel \<longrightarrow>
      add_trends fit (filter (\<lambda>r. countryiso3code r \<noteq> JStr k) df) sel ts = add_trends fit df sel ts)"
proof (intro conjI impI ballI)
  fix t
  assume a: "assemble fit df sel label True = Inr fig" and t: "t \<in> set (traces fig)" "dash t"
  from assemble_traces [OF a] obtain new where
    tr: "traces fig = traces (px_line df label (label @ '' Over Time'')) @ new" and
    new: "list_all2 (\<lambda>c t. trend_trace fit df c = Inr (Some t))
            (filter (\<lambda>c. country_data df c \<noteq> []) sel) new"
    by auto
  from t tr raw_solid [of df label "label @ '' Over Time''"] have "t \<in> set new"
    by auto
  from trends_from_selection [OF new this] obtain c where
    c: "c \<in> set sel" "trend_trace fit df c = Inr (Some t)"
    by auto
  from trend_trace_SomeD [OF c(2)] c(1)
  show "\<exists>c\<in>set sel. \<exists>lab. map_of countries c = Some lab \<and>
            trace_name t = JStr (lab @ '' trend'') \<and> country_data df c \<noteq> [] \<and>
            trace_x t = map date (country_data df c)"
    by blast
next
  fix r
  assume a: "assemble fit df sel label True = Inr fig" and r: "r \<in> set df" "countryiso3code r \<noteq> JNull"
  from assemble_traces [OF a] obtain new where
    tr: "traces fig = traces (px_line df label (label @ '' Over Time'')) @ new"
    by blast
  from raw_trace_of_row [OF r, of label "label @ '' Over Time''"] tr
  show "\<exists>t\<in>set (traces fig). \<not> dash t \<and> trace_name t = countryiso3code r"
    by auto
next
  assume "k \<notin> set sel"
  then show "add_trends fit (filter (\<lambda>r. countryiso3code r \<noteq> JStr k) df) sel ts = add_trends fit df sel ts"
    by (rule add_trends_other)
qed

text \<open>
  China is in \<open>rows3\<close> and not in the selection: \<open>fig3\<close> has its raw trace, its only
  dashed trace is that of the United States, and the overlay is the same without China's row.
\<close>

theorem trends_only_for_selection_witness:
  "assemble least_squares_line rows3 [''USA'', ''FRA''] ''GDP (current US$)'' True = Inr fig3 \<and>
   ''CHN'' \<notin> set [''USA'', ''FRA''] \<and>
   (\<exists>t\<in>set (traces fig3). \<not> dash t \<and> trace_name t = JStr ''CHN'') \<and>
   map trace_name (filter dash (traces fig3)) = [JStr ''United States trend''] \<and>
   (\<exists>c\<in>set [''USA'', ''FRA'']. \<exists>lab. map_of countries c = Some lab \<and>
      JStr ''United States trend'' = JStr (lab @ '' trend'') \<and> country_data rows3 c \<noteq> []) \<and>
   add_trends least_squares_line (filter (\<lambda>r. countryiso3code r \<noteq> JStr ''CHN'') rows3) [''USA'', ''FRA''] []
     = add_trends least_squares_line rows3 [''USA'', ''FRA''] []"
proof -
  let ?chn = "\<lparr>countryiso3code = JStr ''CHN'', date = Some 2000, val = None\<rparr>"
  let ?t = "\<lparr>trace_name = JStr ''United States trend'', trace_x = [Some 2000, Some 2001],
          trace_y = [Some 100, Some 0], dash = True, opacity = 1 / 2\<rparr>"
  note th = trends_only_for_selection [of least_squares_line rows3 "[''USA'', ''FRA'']" "''GDP (current US$)''"
      fig3 "''CHN''" "[]"]
  have k: "''CHN'' \<notin> set [''USA'', ''FRA'']" by simp
  have r: "?chn \<in> set rows3" "countryiso3code ?chn \<noteq> JNull"
    by (simp_all add: rows3_def)
  have t: "?t \<in> set (traces fig3)" "dash ?t"
    by (simp_all add: fig3_def)
  have n: "map trace_name (filter dash (traces fig3)) = [JStr ''United States trend'']"
    by (simp add: fig3_def)
  from th assemble_fig3 r have "\<exists>t\<in>set (traces fig3). \<not> dash t \<and> trace_name t = countryiso3code ?chn"
    by blast
  then have 1: "\<exists>t\<in>set (traces fig3). \<not> dash t \<and> trace_name t = JStr ''CHN''"
    by simp
  from th assemble_fig3 t have "\<exists>c\<in>set [''USA'', ''FRA'']. \<exists>lab. map_of countries c = Some lab \<and>
            trace_name ?t = JStr (lab @ '' trend'') \<and> country_data rows3 c \<noteq> [] \<and>
            trace_x ?t = map date (country_data rows3 c)"
    by blast
  then have 2: "\<exists>c\<in>set [''USA'', ''FRA'']. \<exists>lab. map_of countries c = Some lab \<and>
      JStr ''United States trend'' = JStr (lab @ '' trend'') \<and> country_data rows3 c \<noteq> []"
    by auto
  from th k have 3: "add_trends least_squares_line (filter (\<lambda>r. countryiso3code r \<noteq> JStr ''CHN'') rows3) [''USA'', ''FRA''] []
     = add_trends least_squares_line rows3 [''USA'', ''FRA''] []"
    by blast
  from assemble_fig3 k 1 n 2 3 show ?thesis by blast
qed

end
